theory Spec2Isabelle
  imports Complex_Main
begin

section \<open>Values, exceptions and the remote endpoint\<close>

text \<open>
  The client of \<^verbatim>\<open>samples/python-app/vault_client.py\<close> keeps a token and three caches
  and talks to a Vault server through the hvac library. Secret payloads are JSON-like
  Python values; a Python dict is an association list whose first binding of a key wins.
  The value \<open>PNone\<close> is Python's \<^verbatim>\<open>None\<close>, which the get operations return when a secret
  is unavailable.
\<close>

datatype pyval =
    PNone
  | PBool bool
  | PInt int
  | PStr string
  | PDict "(string \<times> pyval) list"



text \<open>
  \<^verbatim>\<open>int(x)\<close> on a float truncates towards zero. Times (\<^verbatim>\<open>time.time()\<close>) are Python
  floats; they are modelled as reals, and the factor \<^verbatim>\<open>0.8\<close> as the real number 4/5.
\<close>

definition py_int :: "real \<Rightarrow> int" where
  "py_int x = (if 0 \<le> x then \<lfloor>x\<rfloor> else \<lceil>x\<rceil>)"

text \<open>
  Every handler of the client has two clauses, \<^verbatim>\<open>except VaultError\<close> and
  \<^verbatim>\<open>except Exception\<close>; a remote call either raises one of the two or returns.
\<close>

datatype exn = VaultError | OtherException

datatype 'a outcome = Raises exn | Returns 'a

text \<open>
  Modelled from the spec: the shapes of the endpoint's responses (hvac and the Vault
  server are not part of the repository). Section 6 of the specification gives
  \<^verbatim>\<open>login -> {token, leaseDurationSeconds}\<close>, \<^verbatim>\<open>renewSelf -> {leaseDurationSeconds}\<close>,
  \<^verbatim>\<open>readVersionedSecret -> {data, version}\<close>,
  \<^verbatim>\<open>generateDynamicCredentials -> {..., leaseDurationSeconds}\<close> and
  \<^verbatim>\<open>readStaticCredentials -> {..., ttlSeconds?}\<close>. The fields are the ones the client
  reads: \<^verbatim>\<open>response['auth']['client_token']\<close>, \<^verbatim>\<open>response['auth']['lease_duration']\<close>,
  \<^verbatim>\<open>response['data']['data']\<close>, \<^verbatim>\<open>response['data']['metadata']\<close>, \<^verbatim>\<open>response['data']\<close>,
  \<^verbatim>\<open>response['lease_duration']\<close> and the optional \<^verbatim>\<open>response.get('ttl', 3600)\<close>.
\<close>

record auth_response =
  client_token :: string
  lease_duration :: int

record kv_metadata =
  version :: int

record read_secret_response =
  data_data :: pyval
  data_metadata :: kv_metadata

record credentials_response =
  credentials_data :: pyval
  credentials_lease_duration :: int

record static_credentials_response =
  static_data :: pyval
  static_ttl :: "int option"

text \<open>The remote calls the client makes, with their arguments, in the order made.\<close>

datatype call =
    ApproleLogin string string
  | RenewSelf
  | ReadSecretVersion string string
  | GenerateCredentials string string
  | GetStaticCredentials string string

fun is_fetch :: "call \<Rightarrow> bool" where
  "is_fetch (ApproleLogin r s) = False"
| "is_fetch RenewSelf = False"
| "is_fetch (ReadSecretVersion p m) = True"
| "is_fetch (GenerateCredentials n m) = True"
| "is_fetch (GetStaticCredentials n m) = True"

text \<open>
  The world outside the client: the clock (\<open>clock w n\<close> is what the \<open>n\<close>-th call of
  \<^verbatim>\<open>time.time()\<close> returns, \<open>ticks\<close> counts the calls made), the remote calls made so
  far, and the endpoint, which answers a call from the calls before it and the call's
  arguments.
\<close>

record world =
  clock :: "nat \<Rightarrow> real"
  ticks :: nat
  calls :: "call list"
  approle_login :: "call list \<Rightarrow> string \<Rightarrow> string \<Rightarrow> auth_response outcome"
  renew_self :: "call list \<Rightarrow> auth_response outcome"
  read_secret_version :: "call list \<Rightarrow> string \<Rightarrow> string \<Rightarrow> read_secret_response outcome"
  generate_credentials :: "call list \<Rightarrow> string \<Rightarrow> string \<Rightarrow> credentials_response outcome"
  get_static_credentials ::
    "call list \<Rightarrow> string \<Rightarrow> string \<Rightarrow> static_credentials_response outcome"

definition time_time :: "world \<Rightarrow> real \<times> world" where
  "time_time w = (clock w (ticks w), w\<lparr>ticks := Suc (ticks w)\<rparr>)"

definition fetches :: "world \<Rightarrow> call list" where
  "fetches w = filter is_fetch (calls w)"

section \<open>The client\<close>

record vault_config =
  config_url :: string
  config_role_id :: string
  config_secret_id :: string
  config_entity :: string

text \<open>
  Cache entries are the dicts the client stores: \<^verbatim>\<open>data\<close> and \<^verbatim>\<open>timestamp\<close> in all three
  caches, with \<^verbatim>\<open>metadata\<close> in the KV cache and \<^verbatim>\<open>ttl\<close> in the two database caches.
\<close>

record cache_entry =
  data :: pyval
  timestamp :: real

record kv_entry = cache_entry +
  metadata :: kv_metadata

record db_entry = cache_entry +
  ttl :: int

text \<open>
  The fields of \<^verbatim>\<open>VaultClient\<close>; \<open>hvac_token\<close> is \<^verbatim>\<open>self.client.token\<close>, the token the
  hvac client sends.
\<close>

record client =
  config :: vault_config
  hvac_token :: "string option"
  token :: "string option"
  token_issued_time :: real
  token_ttl :: int
  kv_cache :: "string \<rightharpoonup> kv_entry"
  db_dynamic_cache :: "string \<rightharpoonup> db_entry"
  db_static_cache :: "string \<rightharpoonup> db_entry"

text \<open>\<^verbatim>\<open>not self.token\<close>: the token is \<^verbatim>\<open>None\<close> or the empty string.\<close>

fun no_token :: "string option \<Rightarrow> bool" where
  "no_token None = True"
| "no_token (Some s) = (s = [])"

subsection \<open>Token lifecycle\<close>

text \<open>
  \<^verbatim>\<open>login\<close> (lines 55-83). The remote call is the first statement of the \<^verbatim>\<open>try\<close>; both
  handlers log and return \<^verbatim>\<open>False\<close>.
\<close>

definition login :: "world \<Rightarrow> client \<Rightarrow> bool \<times> client \<times> world" where
  "login w c =
    (let role = config_role_id (config c); secret = config_secret_id (config c);
         w1 = w\<lparr>calls := calls w @ [ApproleLogin role secret]\<rparr>
     in case approle_login w (calls w) role secret of
          Raises VaultError \<Rightarrow> (False, c, w1)
        | Raises OtherException \<Rightarrow> (False, c, w1)
        | Returns response \<Rightarrow>
            (let (now, w2) = time_time w1
             in (True,
                 c\<lparr>token := Some (client_token response),
                   token_issued_time := now,
                   token_ttl := lease_duration response,
                   hvac_token := Some (client_token response)\<rparr>,
                 w2)))"

text \<open>\<^verbatim>\<open>renew_token\<close> (lines 85-106).\<close>

definition renew_token :: "world \<Rightarrow> client \<Rightarrow> bool \<times> client \<times> world" where
  "renew_token w c =
    (let w1 = w\<lparr>calls := calls w @ [RenewSelf]\<rparr>
     in case renew_self w (calls w) of
          Raises VaultError \<Rightarrow> (False, c, w1)
        | Raises OtherException \<Rightarrow> (False, c, w1)
        | Returns response \<Rightarrow>
            (let (now, w2) = time_time w1
             in (True,
                 c\<lparr>token_issued_time := now, token_ttl := lease_duration response\<rparr>,
                 w2)))"

text \<open>
  \<^verbatim>\<open>is_token_expired\<close> (lines 108-120). The clock is read only when a token with a
  positive TTL is held.
\<close>

definition is_token_expired :: "world \<Rightarrow> client \<Rightarrow> bool \<times> world" where
  "is_token_expired w c =
    (if no_token (token c) \<or> token_ttl c \<le> 0 then (True, w)
     else (let (now, w1) = time_time w;
               elapsed_time = now - token_issued_time c
           in (elapsed_time \<ge> real_of_int (token_ttl c) * (8 / 10), w1)))"

text \<open>
  \<^verbatim>\<open>ensure_valid_token\<close> (lines 122-135). The first condition is
  \<^verbatim>\<open>not self.token or self.is_token_expired()\<close>, which calls \<^verbatim>\<open>is_token_expired\<close> only
  when a token is held; the second \<^verbatim>\<open>if\<close> calls it again, reading the clock again.
\<close>

definition ensure_valid_token :: "world \<Rightarrow> client \<Rightarrow> bool \<times> client \<times> world" where
  "ensure_valid_token w c =
    (let (first, w1) = (if no_token (token c) then (True, w) else is_token_expired w c)
     in if first then login w1 c
        else (let (second, w2) = is_token_expired w1 c
              in if second then renew_token w2 c else (True, c, w2)))"

subsection \<open>The three get operations\<close>

text \<open>
  Each operation first calls \<^verbatim>\<open>ensure_valid_token\<close>, outside its \<^verbatim>\<open>try\<close>, and returns
  \<^verbatim>\<open>None\<close> when that fails. The body of the \<^verbatim>\<open>try\<close> is a function of its own that
  either returns a value or raises, with the client and the world as they are at that
  point (an exception undoes no assignment); the operation is the body under its two
  handlers, which both return \<^verbatim>\<open>None\<close>.
\<close>

text \<open>\<^verbatim>\<open>get_kv_secret\<close>, lines 150-178: the body of the \<^verbatim>\<open>try\<close>.\<close>

definition get_kv_secret_try :: "world \<Rightarrow> client \<Rightarrow> string \<Rightarrow> pyval outcome \<times> client \<times> world" where
  "get_kv_secret_try w c path =
    (let (hit, w1) =
           (case kv_cache c path of
              None \<Rightarrow> (None, w)
            | Some cached_data \<Rightarrow>
                (let (current_time, w') = time_time w
                 in if current_time - timestamp cached_data < 300
                    then (Some (data cached_data), w') else (None, w')))
     in case hit of
          Some d \<Rightarrow> (Returns d, c, w1)
        | None \<Rightarrow>
            (let mount_point = config_entity (config c) @ ''-kv'';
                 w2 = w1\<lparr>calls := calls w1 @ [ReadSecretVersion path mount_point]\<rparr>
             in case read_secret_version w1 (calls w1) path mount_point of
                  Raises e \<Rightarrow> (Raises e, c, w2)
                | Returns response \<Rightarrow>
                    (let secret_data = data_data response;
                         metadata = data_metadata response;
                         (now, w3) = time_time w2
                     in (Returns secret_data,
                         c\<lparr>kv_cache := (kv_cache c)(path \<mapsto>
                             \<lparr>data = secret_data, timestamp = now, metadata = metadata\<rparr>)\<rparr>,
                         w3))))"

text \<open>\<^verbatim>\<open>get_kv_secret\<close> (lines 137-185).\<close>

definition get_kv_secret :: "world \<Rightarrow> client \<Rightarrow> string \<Rightarrow> pyval \<times> client \<times> world" where
  "get_kv_secret w c path =
    (case ensure_valid_token w c of
       (ok, c1, w1) \<Rightarrow>
         if \<not> ok then (PNone, c1, w1)
         else (case get_kv_secret_try w1 c1 path of
                 (Raises VaultError, c2, w2) \<Rightarrow> (PNone, c2, w2)
               | (Raises OtherException, c2, w2) \<Rightarrow> (PNone, c2, w2)
               | (Returns r, c2, w2) \<Rightarrow> (r, c2, w2)))"

text \<open>
  \<^verbatim>\<open>get_database_dynamic_secret\<close>, lines 200-236: the body of the \<^verbatim>\<open>try\<close>. The cache key
  \<^verbatim>\<open>f"{role_id}"\<close> is the role id itself.
\<close>

definition get_database_dynamic_secret_try ::
    "world \<Rightarrow> client \<Rightarrow> string \<Rightarrow> pyval outcome \<times> client \<times> world" where
  "get_database_dynamic_secret_try w c role_id =
    (let cache_key = role_id;
         (hit, w1) =
           (case db_dynamic_cache c cache_key of
              None \<Rightarrow> (None, w)
            | Some cached_data \<Rightarrow>
                (let (current_time, w') = time_time w;
                     remaining_ttl =
                       real_of_int (ttl cached_data) - (current_time - timestamp cached_data)
                 in if remaining_ttl > 10
                    then (Some (PDict [(''data'', data cached_data),
                                       (''ttl'', PInt (py_int remaining_ttl))]), w')
                    else (None, w')))
     in case hit of
          Some d \<Rightarrow> (Returns d, c, w1)
        | None \<Rightarrow>
            (let mount_point = config_entity (config c) @ ''-database'';
                 w2 = w1\<lparr>calls := calls w1 @ [GenerateCredentials role_id mount_point]\<rparr>
             in case generate_credentials w1 (calls w1) role_id mount_point of
                  Raises e \<Rightarrow> (Raises e, c, w2)
                | Returns response \<Rightarrow>
                    (let secret_data = credentials_data response;
                         ttl' = credentials_lease_duration response;
                         (now, w3) = time_time w2
                     in (Returns (PDict [(''data'', secret_data), (''ttl'', PInt ttl')]),
                         c\<lparr>db_dynamic_cache := (db_dynamic_cache c)(cache_key \<mapsto>
                             \<lparr>data = secret_data, timestamp = now, ttl = ttl'\<rparr>)\<rparr>,
                         w3))))"

text \<open>\<^verbatim>\<open>get_database_dynamic_secret\<close> (lines 187-243).\<close>

definition get_database_dynamic_secret ::
    "world \<Rightarrow> client \<Rightarrow> string \<Rightarrow> pyval \<times> client \<times> world" where
  "get_database_dynamic_secret w c role_id =
    (case ensure_valid_token w c of
       (ok, c1, w1) \<Rightarrow>
         if \<not> ok then (PNone, c1, w1)
         else (case get_database_dynamic_secret_try w1 c1 role_id of
                 (Raises VaultError, c2, w2) \<Rightarrow> (PNone, c2, w2)
               | (Raises OtherException, c2, w2) \<Rightarrow> (PNone, c2, w2)
               | (Returns r, c2, w2) \<Rightarrow> (r, c2, w2)))"

text \<open>
  \<^verbatim>\<open>get_database_static_secret\<close>, lines 258-290: the body of the \<^verbatim>\<open>try\<close>. A cache hit
  returns \<^verbatim>\<open>cached_data['data']\<close>; after a fetch the result is the dict
  \<^verbatim>\<open>{'data': secret_data, 'ttl': ttl}\<close> with \<^verbatim>\<open>ttl = response.get('ttl', 3600)\<close>.
\<close>

definition get_database_static_secret_try ::
    "world \<Rightarrow> client \<Rightarrow> string \<Rightarrow> pyval outcome \<times> client \<times> world" where
  "get_database_static_secret_try w c role_id =
    (let cache_key = role_id;
         (hit, w1) =
           (case db_static_cache c cache_key of
              None \<Rightarrow> (None, w)
            | Some cached_data \<Rightarrow>
                (let (current_time, w') = time_time w
                 in if current_time - timestamp cached_data < 300
                    then (Some (data cached_data), w') else (None, w')))
     in case hit of
          Some d \<Rightarrow> (Returns d, c, w1)
        | None \<Rightarrow>
            (let mount_point = config_entity (config c) @ ''-database'';
                 w2 = w1\<lparr>calls := calls w1 @ [GetStaticCredentials role_id mount_point]\<rparr>
             in case get_static_credentials w1 (calls w1) role_id mount_point of
                  Raises e \<Rightarrow> (Raises e, c, w2)
                | Returns response \<Rightarrow>
                    (let secret_data = static_data response;
                         ttl' = (case static_ttl response of None \<Rightarrow> 3600 | Some t \<Rightarrow> t);
                         (now, w3) = time_time w2
                     in (Returns (PDict [(''data'', secret_data), (''ttl'', PInt ttl')]),
                         c\<lparr>db_static_cache := (db_static_cache c)(cache_key \<mapsto>
                             \<lparr>data = secret_data, timestamp = now, ttl = ttl'\<rparr>)\<rparr>,
                         w3))))"

text \<open>\<^verbatim>\<open>get_database_static_secret\<close> (lines 245-297).\<close>

definition get_database_static_secret ::
    "world \<Rightarrow> client \<Rightarrow> string \<Rightarrow> pyval \<times> client \<times> world" where
  "get_database_static_secret w c role_id =
    (case ensure_valid_token w c of
       (ok, c1, w1) \<Rightarrow>
         if \<not> ok then (PNone, c1, w1)
         else (case get_database_static_secret_try w1 c1 role_id of
                 (Raises VaultError, c2, w2) \<Rightarrow> (PNone, c2, w2)
               | (Raises OtherException, c2, w2) \<Rightarrow> (PNone, c2, w2)
               | (Returns r, c2, w2) \<Rightarrow> (r, c2, w2)))"

subsection \<open>The static scheduler's re-wrapping\<close>


section \<open>Auxiliary notions and sample states\<close>

text \<open>The three caches of a client, and what no operation of the client changes in the world.\<close>

definition caches ::
    "client \<Rightarrow> (string \<rightharpoonup> kv_entry) \<times> (string \<rightharpoonup> db_entry) \<times> (string \<rightharpoonup> db_entry)" where
  "caches c = (kv_cache c, db_dynamic_cache c, db_static_cache c)"

definition same_endpoint :: "world \<Rightarrow> world \<Rightarrow> bool" where
  "same_endpoint w w' \<longleftrightarrow>
     clock w' = clock w \<and> approle_login w' = approle_login w \<and> renew_self w' = renew_self w \<and>
     read_secret_version w' = read_secret_version w \<and>
     generate_credentials w' = generate_credentials w \<and>
     get_static_credentials w' = get_static_credentials w"

text \<open>
  The mount points the operations pass to the endpoint (\<^verbatim>\<open>f"{entity}-kv"\<close> and
  \<^verbatim>\<open>f"{entity}-database"\<close>), and the three freshness tests of the cache lookups, each at
  the next reading of the clock: an entry exists for the key and passes the test the
  operation applies to it.
\<close>

definition kv_mount :: "client \<Rightarrow> string" where
  "kv_mount c = config_entity (config c) @ ''-kv''"

definition database_mount :: "client \<Rightarrow> string" where
  "database_mount c = config_entity (config c) @ ''-database''"

definition kv_is_fresh :: "world \<Rightarrow> client \<Rightarrow> string \<Rightarrow> bool" where
  "kv_is_fresh w c path =
     (case kv_cache c path of None \<Rightarrow> False
      | Some e \<Rightarrow> clock w (ticks w) - timestamp e < 300)"

definition db_dynamic_is_fresh :: "world \<Rightarrow> client \<Rightarrow> string \<Rightarrow> bool" where
  "db_dynamic_is_fresh w c role =
     (case db_dynamic_cache c role of None \<Rightarrow> False
      | Some e \<Rightarrow> 10 < real_of_int (ttl e) - (clock w (ticks w) - timestamp e))"

definition db_static_is_fresh :: "world \<Rightarrow> client \<Rightarrow> string \<Rightarrow> bool" where
  "db_static_is_fresh w c role =
     (case db_static_cache c role of None \<Rightarrow> False
      | Some e \<Rightarrow> clock w (ticks w) - timestamp e < 300)"

text \<open>
  Sample states for the concrete runs below: an endpoint that answers every call, one that
  refuses every call, the client as \<^verbatim>\<open>__init__\<close> leaves it, and a client that holds a token
  issued at time 0 with a TTL of 100 seconds.
\<close>

definition endpoint_up :: "(nat \<Rightarrow> real) \<Rightarrow> world" where
  "endpoint_up clk =
    \<lparr>clock = clk, ticks = 0, calls = [],
     approle_login = (\<lambda>h r s. Returns \<lparr>client_token = ''fresh'', lease_duration = 3600\<rparr>),
     renew_self = (\<lambda>h. Returns \<lparr>client_token = ''held'', lease_duration = 3600\<rparr>),
     read_secret_version = (\<lambda>h p m. Returns
        \<lparr>data_data = PDict [(''api_key'', PStr ''k1'')], data_metadata = \<lparr>version = 2\<rparr>\<rparr>),
     generate_credentials = (\<lambda>h n m. Returns
        \<lparr>credentials_data = PDict [(''username'', PStr ''u1''), (''password'', PStr ''p1'')],
         credentials_lease_duration = 60\<rparr>),
     get_static_credentials = (\<lambda>h n m. Returns
        \<lparr>static_data = PDict [(''username'', PStr ''u2''), (''password'', PStr ''p2'')],
         static_ttl = None\<rparr>)\<rparr>"

definition endpoint_down :: "(nat \<Rightarrow> real) \<Rightarrow> world" where
  "endpoint_down clk =
    \<lparr>clock = clk, ticks = 0, calls = [],
     approle_login = (\<lambda>h r s. Raises VaultError),
     renew_self = (\<lambda>h. Raises VaultError),
     read_secret_version = (\<lambda>h p m. Raises VaultError),
     generate_credentials = (\<lambda>h n m. Raises OtherException),
     get_static_credentials = (\<lambda>h n m. Raises VaultError)\<rparr>"

definition sample_config :: vault_config where
  "sample_config =
    \<lparr>config_url = ''http://127.0.0.1:8200'', config_role_id = ''role'',
     config_secret_id = ''secret'', config_entity = ''app''\<rparr>"

definition init_client :: "vault_config \<Rightarrow> client" where
  "init_client cfg =
    \<lparr>config = cfg, hvac_token = None, token = None, token_issued_time = 0, token_ttl = 0,
     kv_cache = Map.empty, db_dynamic_cache = Map.empty, db_static_cache = Map.empty\<rparr>"

definition held_client :: client where
  "held_client =
    (init_client sample_config)\<lparr>hvac_token := Some ''held'', token := Some ''held'',
       token_issued_time := 0, token_ttl := 100\<rparr>"

text \<open>
  A client whose token (TTL 3600, issued at 0) stays valid for the runs below and whose
  three caches each hold one entry stored at time 0; the dynamic entry has a lease of 100
  seconds.
\<close>

definition cached_client :: client where
  "cached_client =
    (init_client sample_config)\<lparr>hvac_token := Some ''held'', token := Some ''held'',
       token_issued_time := 0, token_ttl := 3600,
       kv_cache := [''app/config'' \<mapsto>
         \<lparr>data = PDict [(''api_key'', PStr ''k0'')], timestamp = 0, metadata = \<lparr>version = 1\<rparr>\<rparr>],
       db_dynamic_cache := [''db-role'' \<mapsto>
         \<lparr>data = PDict [(''username'', PStr ''u0''), (''password'', PStr ''p0'')],
          timestamp = 0, ttl = 100\<rparr>],
       db_static_cache := [''db-role'' \<mapsto>
         \<lparr>data = PDict [(''username'', PStr ''s0''), (''password'', PStr ''q0'')],
          timestamp = 0, ttl = 3600\<rparr>]\<rparr>"

lemmas sample_defs =
  endpoint_up_def endpoint_down_def sample_config_def init_client_def held_client_def
  cached_client_def

section \<open>Token lifecycle: properties\<close>



text \<open>What \<^verbatim>\<open>login\<close> and \<^verbatim>\<open>renew_token\<close> do on each outcome of their remote call.\<close>

lemma login_raises:
  assumes "approle_login w (calls w) (config_role_id (config c)) (config_secret_id (config c)) = Raises e"
  shows "login w c = (False, c,
     w\<lparr>calls := calls w @ [ApproleLogin (config_role_id (config c)) (config_secret_id (config c))]\<rparr>)"
  using assms by (cases e) (simp_all add: login_def Let_def)

lemma login_returns:
  assumes "approle_login w (calls w) (config_role_id (config c)) (config_secret_id (config c)) = Returns r"
  shows "login w c = (True,
     c\<lparr>token := Some (client_token r), token_issued_time := clock w (ticks w),
       token_ttl := lease_duration r, hvac_token := Some (client_token r)\<rparr>,
     w\<lparr>calls := calls w @ [ApproleLogin (config_role_id (config c)) (config_secret_id (config c))],
       ticks := Suc (ticks w)\<rparr>)"
  using assms by (simp add: login_def Let_def time_time_def)

lemma renew_token_raises:
  assumes "renew_self w (calls w) = Raises e"
  shows "renew_token w c = (False, c, w\<lparr>calls := calls w @ [RenewSelf]\<rparr>)"
  using assms by (cases e) (simp_all add: renew_token_def Let_def)

lemma renew_token_returns:
  assumes "renew_self w (calls w) = Returns r"
  shows "renew_token w c = (True,
     c\<lparr>token_issued_time := clock w (ticks w), token_ttl := lease_duration r\<rparr>,
     w\<lparr>calls := calls w @ [RenewSelf], ticks := Suc (ticks w)\<rparr>)"
  using assms by (simp add: renew_token_def Let_def time_time_def)

lemma login_failed_unchanged: "\<not> fst (login w c) \<Longrightarrow> fst (snd (login w c)) = c"
  by (cases "approle_login w (calls w) (config_role_id (config c)) (config_secret_id (config c))")
     (simp_all add: login_raises login_returns)

lemma renew_token_failed_unchanged: "\<not> fst (renew_token w c) \<Longrightarrow> fst (snd (renew_token w c)) = c"
  by (cases "renew_self w (calls w)") (simp_all add: renew_token_raises renew_token_returns)

text \<open>
  C7. For every token state: if the remote login call fails (raises), \<^verbatim>\<open>login\<close> returns
  failure, and whenever \<^verbatim>\<open>login\<close> returns failure the client (token, issue time, TTL and
  all the rest) is unchanged; likewise, if the remote renewal call fails, \<^verbatim>\<open>renew_token\<close>
  returns failure, and whenever it returns failure the client is unchanged.
\<close>

theorem login_renew_failure_keeps_token:
  "(approle_login w (calls w) (config_role_id (config c)) (config_secret_id (config c)) = Raises e
      \<longrightarrow> \<not> fst (login w c)) \<and>
   (\<not> fst (login w c) \<longrightarrow> fst (snd (login w c)) = c) \<and>
   (renew_self w (calls w) = Raises e' \<longrightarrow> \<not> fst (renew_token w c)) \<and>
   (\<not> fst (renew_token w c) \<longrightarrow> fst (snd (renew_token w c)) = c)"
  by (simp add: login_raises renew_token_raises login_failed_unchanged
      renew_token_failed_unchanged)

text \<open>Both calls refused by the endpoint, for a client holding a token.\<close>

theorem login_renew_failure_witness:
  "\<not> fst (login (endpoint_down (\<lambda>n. 81)) held_client) \<and>
   fst (snd (login (endpoint_down (\<lambda>n. 81)) held_client)) = held_client \<and>
   \<not> fst (renew_token (endpoint_down (\<lambda>n. 81)) held_client) \<and>
   fst (snd (renew_token (endpoint_down (\<lambda>n. 81)) held_client)) = held_client"
  using login_renew_failure_keeps_token [of "endpoint_down (\<lambda>n. 81)" held_client VaultError VaultError]
  by (simp add: endpoint_down_def)

text \<open>
  The two expiry checks of \<^verbatim>\<open>ensure_valid_token\<close> read the clock one after the other:
  the first at \<open>clock w (ticks w)\<close>, the second at \<open>clock w (Suc (ticks w))\<close>.
\<close>

lemma is_token_expired_eq:
  "is_token_expired w c =
     (if no_token (token c) \<or> token_ttl c \<le> 0 then (True, w)
      else (real_of_int (token_ttl c) * (8 / 10) \<le> clock w (ticks w) - token_issued_time c,
            w\<lparr>ticks := Suc (ticks w)\<rparr>))"
  by (simp add: is_token_expired_def time_time_def)

lemma ensure_valid_token_no_token:
  "no_token (token c) \<or> token_ttl c \<le> 0 \<Longrightarrow> ensure_valid_token w c = login w c"
  by (auto simp: ensure_valid_token_def is_token_expired_eq)

lemma ensure_valid_token_expired:
  assumes "\<not> no_token (token c)" and "0 < token_ttl c"
    and "real_of_int (token_ttl c) * (8 / 10) \<le> clock w (ticks w) - token_issued_time c"
  shows "ensure_valid_token w c = login (w\<lparr>ticks := Suc (ticks w)\<rparr>) c"
  using assms by (simp add: ensure_valid_token_def is_token_expired_eq)

lemma ensure_valid_token_valid:
  assumes "\<not> no_token (token c)" and "0 < token_ttl c"
    and "clock w (ticks w) - token_issued_time c < real_of_int (token_ttl c) * (8 / 10)"
    and "clock w (Suc (ticks w)) - token_issued_time c < real_of_int (token_ttl c) * (8 / 10)"
  shows "ensure_valid_token w c = (True, c, w\<lparr>ticks := Suc (Suc (ticks w))\<rparr>)"
  using assms by (simp add: ensure_valid_token_def is_token_expired_eq)

lemma ensure_valid_token_race:
  assumes "\<not> no_token (token c)" and "0 < token_ttl c"
    and "clock w (ticks w) - token_issued_time c < real_of_int (token_ttl c) * (8 / 10)"
    and "real_of_int (token_ttl c) * (8 / 10) \<le> clock w (Suc (ticks w)) - token_issued_time c"
  shows "ensure_valid_token w c = renew_token (w\<lparr>ticks := Suc (Suc (ticks w))\<rparr>) c"
  using assms by (simp add: ensure_valid_token_def is_token_expired_eq)

lemma login_calls:
  "calls (snd (snd (login w c))) =
     calls w @ [ApproleLogin (config_role_id (config c)) (config_secret_id (config c))]"
  by (cases "approle_login w (calls w) (config_role_id (config c)) (config_secret_id (config c))")
     (simp_all add: login_raises login_returns)

text \<open>
  C8, as amended. \<^verbatim>\<open>ensure_valid_token\<close> returns the result of \<^verbatim>\<open>login\<close> whenever the token
  is absent or the first expiry check is true, and returns true without any remote call
  when both expiry checks are false. It invokes \<^verbatim>\<open>renew_token\<close> exactly when a token with
  a positive TTL is held and the clock passes 0.8 times the TTL between the first and the
  second expiry check; with a clock that does not advance between the two checks it never
  invokes \<^verbatim>\<open>renew_token\<close>.
\<close>

theorem ensure_valid_token_cases:
  "(no_token (token c) \<or> token_ttl c \<le> 0 \<longrightarrow> ensure_valid_token w c = login w c) \<and>
   (\<not> no_token (token c) \<and> 0 < token_ttl c \<and>
      real_of_int (token_ttl c) * (8 / 10) \<le> clock w (ticks w) - token_issued_time c
      \<longrightarrow> ensure_valid_token w c = login (w\<lparr>ticks := Suc (ticks w)\<rparr>) c) \<and>
   (\<not> no_token (token c) \<and> 0 < token_ttl c \<and>
      clock w (ticks w) - token_issued_time c < real_of_int (token_ttl c) * (8 / 10) \<and>
      clock w (Suc (ticks w)) - token_issued_time c < real_of_int (token_ttl c) * (8 / 10)
      \<longrightarrow> ensure_valid_token w c = (True, c, w\<lparr>ticks := Suc (Suc (ticks w))\<rparr>)) \<and>
   (\<not> no_token (token c) \<and> 0 < token_ttl c \<and>
      clock w (ticks w) - token_issued_time c < real_of_int (token_ttl c) * (8 / 10) \<and>
      real_of_int (token_ttl c) * (8 / 10) \<le> clock w (Suc (ticks w)) - token_issued_time c
      \<longrightarrow> ensure_valid_token w c = renew_token (w\<lparr>ticks := Suc (Suc (ticks w))\<rparr>) c) \<and>
   (clock w (Suc (ticks w)) \<le> clock w (ticks w)
      \<longrightarrow> RenewSelf \<notin> set (calls (snd (snd (ensure_valid_token w c)))) - set (calls w))"
proof -
  have "RenewSelf \<notin> set (calls (snd (snd (ensure_valid_token w c)))) - set (calls w)"
    if same: "clock w (Suc (ticks w)) \<le> clock w (ticks w)"
  proof (cases "no_token (token c) \<or> token_ttl c \<le> 0")
    case True
    then show ?thesis by (simp add: ensure_valid_token_no_token login_calls)
  next
    case False
    show ?thesis
    proof (cases "real_of_int (token_ttl c) * (8 / 10) \<le> clock w (ticks w) - token_issued_time c")
      case True
      with False show ?thesis by (simp add: ensure_valid_token_expired login_calls)
    next
      case False
      with \<open>\<not> (no_token (token c) \<or> token_ttl c \<le> 0)\<close> same show ?thesis
        by (simp add: ensure_valid_token_valid)
    qed
  qed
  then show ?thesis
    by (simp add: ensure_valid_token_no_token ensure_valid_token_expired
        ensure_valid_token_valid ensure_valid_token_race)
qed

text \<open>
  A held token (TTL 100, issued at 0) at time 50, at time 81, no token at all, and a
  clock that reads 79 and then 80.
\<close>

theorem ensure_valid_token_cases_witness:
  "ensure_valid_token (endpoint_up (\<lambda>n. 50)) held_client =
     (True, held_client, (endpoint_up (\<lambda>n. 50))\<lparr>ticks := Suc (Suc 0)\<rparr>) \<and>
   ensure_valid_token (endpoint_up (\<lambda>n. 81)) held_client =
     login ((endpoint_up (\<lambda>n. 81))\<lparr>ticks := Suc 0\<rparr>) held_client \<and>
   ensure_valid_token (endpoint_up (\<lambda>n. 81)) (init_client sample_config) =
     login (endpoint_up (\<lambda>n. 81)) (init_client sample_config) \<and>
   ensure_valid_token (endpoint_up (\<lambda>n. 79 + real n)) held_client =
     renew_token ((endpoint_up (\<lambda>n. 79 + real n))\<lparr>ticks := Suc (Suc 0)\<rparr>) held_client \<and>
   RenewSelf \<notin> set (calls (snd (snd (ensure_valid_token (endpoint_up (\<lambda>n. 50)) held_client))))"
  using ensure_valid_token_cases [of held_client "endpoint_up (\<lambda>n. 50)"]
    ensure_valid_token_cases [of held_client "endpoint_up (\<lambda>n. 81)"]
    ensure_valid_token_cases [of "init_client sample_config" "endpoint_up (\<lambda>n. 81)"]
    ensure_valid_token_cases [of held_client "endpoint_up (\<lambda>n. 79 + real n)"]
  by (simp add: sample_defs)

text \<open>
  C8 as stated fails: with a token of TTL 100 issued at 0 and a clock reading 79 at the
  first expiry check and 80 at the second, the token is held and not expired at the first
  check, and the only remote call \<^verbatim>\<open>ensure_valid_token\<close> makes is the renewal.
\<close>

theorem ensure_valid_token_reaches_renew:
  "\<not> no_token (token held_client) \<and>
   \<not> fst (is_token_expired (endpoint_up (\<lambda>n. 79 + real n)) held_client) \<and>
   calls (snd (snd (ensure_valid_token (endpoint_up (\<lambda>n. 79 + real n)) held_client))) = [RenewSelf]"
  by (simp add: ensure_valid_token_def is_token_expired_eq renew_token_def time_time_def
      sample_defs Let_def)

text \<open>
  C1. The claim says that with a token held and expired, \<^verbatim>\<open>ensure_valid_token\<close> delegates
  to \<^verbatim>\<open>renew_token\<close>. On a held token of TTL 100 issued at 0, at time 81, the code calls
  \<^verbatim>\<open>login\<close> instead: the only remote call is the AppRole login and the token is replaced.
\<close>

theorem ensure_valid_token_expired_logs_in:
  "fst (is_token_expired (endpoint_up (\<lambda>n. 81)) held_client) \<and>
   ensure_valid_token (endpoint_up (\<lambda>n. 81)) held_client =
     (True,
      held_client\<lparr>token := Some ''fresh'', token_issued_time := 81, token_ttl := 3600,
        hvac_token := Some ''fresh''\<rparr>,
      (endpoint_up (\<lambda>n. 81))\<lparr>ticks := Suc (Suc 0), calls := [ApproleLogin ''role'' ''secret'']\<rparr>)"
  by (simp add: ensure_valid_token_def is_token_expired_eq login_def time_time_def
      sample_defs Let_def)

section \<open>The get operations: what each path does\<close>

text \<open>
  \<^verbatim>\<open>ensure_valid_token\<close> touches neither the caches nor the configuration, makes no fetch,
  and leaves the clock and the endpoint as they are.
\<close>

lemma ensure_valid_token_frame:
  assumes "ensure_valid_token w c = (ok, c', w')"
  shows "caches c' = caches c \<and> config c' = config c \<and> fetches w' = fetches w \<and>
         same_endpoint w w'"
proof -
  let ?T = "real_of_int (token_ttl c) * (8 / 10)"
  have login_ok: "caches (fst (snd (login v c))) = caches c \<and>
      config (fst (snd (login v c))) = config c \<and>
      fetches (snd (snd (login v c))) = fetches v \<and> same_endpoint v (snd (snd (login v c)))" for v
    by (cases "approle_login v (calls v) (config_role_id (config c)) (config_secret_id (config c))")
       (simp_all add: login_raises login_returns caches_def fetches_def same_endpoint_def)
  have renew_ok: "caches (fst (snd (renew_token v c))) = caches c \<and>
      config (fst (snd (renew_token v c))) = config c \<and>
      fetches (snd (snd (renew_token v c))) = fetches v \<and>
      same_endpoint v (snd (snd (renew_token v c)))" for v
    by (cases "renew_self v (calls v)")
       (simp_all add: renew_token_raises renew_token_returns caches_def fetches_def
          same_endpoint_def)
  consider (a) "no_token (token c) \<or> token_ttl c \<le> 0"
    | (b) "\<not> no_token (token c)" "0 < token_ttl c"
        "?T \<le> clock w (ticks w) - token_issued_time c"
    | (c) "\<not> no_token (token c)" "0 < token_ttl c"
        "clock w (ticks w) - token_issued_time c < ?T"
        "clock w (Suc (ticks w)) - token_issued_time c < ?T"
    | (d) "\<not> no_token (token c)" "0 < token_ttl c"
        "clock w (ticks w) - token_issued_time c < ?T"
        "?T \<le> clock w (Suc (ticks w)) - token_issued_time c"
    by fastforce
  then show ?thesis
  proof cases
    case a
    then have "login w c = (ok, c', w')"
      using assms by (simp add: ensure_valid_token_no_token)
    then show ?thesis using login_ok [of w] by simp
  next
    case b
    then have "login (w\<lparr>ticks := Suc (ticks w)\<rparr>) c = (ok, c', w')"
      using assms by (simp add: ensure_valid_token_expired)
    then show ?thesis
      using login_ok [of "w\<lparr>ticks := Suc (ticks w)\<rparr>"]
      by (simp add: fetches_def same_endpoint_def)
  next
    case c
    then have "(ok, c', w') = (True, c, w\<lparr>ticks := Suc (Suc (ticks w))\<rparr>)"
      using assms by (simp add: ensure_valid_token_valid)
    then show ?thesis by (simp add: fetches_def same_endpoint_def)
  next
    case d
    then have "renew_token (w\<lparr>ticks := Suc (Suc (ticks w))\<rparr>) c = (ok, c', w')"
      using assms by (simp add: ensure_valid_token_race)
    then show ?thesis
      using renew_ok [of "w\<lparr>ticks := Suc (Suc (ticks w))\<rparr>"]
      by (simp add: fetches_def same_endpoint_def)
  qed
qed

lemma fetches_append: "calls w' = calls w @ [x] \<Longrightarrow> is_fetch x \<Longrightarrow> fetches w' = fetches w @ [x]"
  by (simp add: fetches_def)

subsection \<open>\<^verbatim>\<open>get_kv_secret\<close>\<close>

lemma get_kv_secret_try_fresh:
  assumes "kv_cache c path = Some e" and "clock w (ticks w) - timestamp e < 300"
  shows "get_kv_secret_try w c path = (Returns (data e), c, w\<lparr>ticks := Suc (ticks w)\<rparr>)"
  using assms by (simp add: get_kv_secret_try_def time_time_def Let_def)

lemma get_kv_secret_try_raises:
  assumes "\<not> kv_is_fresh w c path"
    and "read_secret_version w (calls w) path (kv_mount c) = Raises ex"
  shows "\<exists>w'. get_kv_secret_try w c path = (Raises ex, c, w') \<and>
      calls w' = calls w @ [ReadSecretVersion path (kv_mount c)]"
  using assms
  by (auto simp: get_kv_secret_try_def kv_is_fresh_def kv_mount_def time_time_def Let_def
      split: option.splits)

lemma get_kv_secret_try_returns:
  assumes "\<not> kv_is_fresh w c path"
    and "read_secret_version w (calls w) path (kv_mount c) = Returns resp"
  shows "\<exists>w' ts. get_kv_secret_try w c path =
        (Returns (data_data resp),
         c\<lparr>kv_cache := (kv_cache c)(path \<mapsto> \<lparr>data = data_data resp, timestamp = ts, metadata = data_metadata resp\<rparr>)\<rparr>, w') \<and>
      calls w' = calls w @ [ReadSecretVersion path (kv_mount c)]"
  using assms
  by (auto simp: get_kv_secret_try_def kv_is_fresh_def kv_mount_def time_time_def Let_def
      split: option.splits)

lemma get_kv_secret_handlers:
  assumes "ensure_valid_token w c = (True, c1, w1)"
  shows "get_kv_secret_try w1 c1 path = (Raises ex, c2, w2) \<Longrightarrow>
           get_kv_secret w c path = (PNone, c2, w2)"
    and "get_kv_secret_try w1 c1 path = (Returns r, c2, w2) \<Longrightarrow>
           get_kv_secret w c path = (r, c2, w2)"
  using assms by (auto simp: get_kv_secret_def split: exn.splits)

lemma get_kv_secret_token_failed:
  assumes "\<not> fst (ensure_valid_token w c)"
  shows "fst (get_kv_secret w c path) = PNone \<and>
         caches (fst (snd (get_kv_secret w c path))) = caches c \<and>
         fetches (snd (snd (get_kv_secret w c path))) = fetches w"
proof -
  obtain ok c1 w1 where e: "ensure_valid_token w c = (ok, c1, w1)"
    by (cases "ensure_valid_token w c") auto
  with assms have "get_kv_secret w c path = (PNone, c1, w1)"
    by (simp add: get_kv_secret_def)
  then show ?thesis
    using ensure_valid_token_frame [OF e] by simp
qed

lemma get_kv_secret_fresh:
  assumes "ensure_valid_token w c = (True, c1, w1)"
    and "kv_cache c path = Some e" and "clock w1 (ticks w1) - timestamp e < 300"
  shows "get_kv_secret w c path = (data e, c1, w1\<lparr>ticks := Suc (ticks w1)\<rparr>)"
proof -
  have "kv_cache c1 path = Some e"
    using ensure_valid_token_frame [OF assms(1)] assms(2) by (simp add: caches_def)
  then show ?thesis
    using get_kv_secret_handlers(2) [OF assms(1)] get_kv_secret_try_fresh assms(3) by blast
qed

lemma get_kv_secret_raises:
  assumes "ensure_valid_token w c = (True, c1, w1)"
    and "\<not> kv_is_fresh w1 c path"
    and "read_secret_version w (calls w1) path (kv_mount c) = Raises ex"
  shows "\<exists>w'. get_kv_secret w c path = (PNone, c1, w') \<and>
      calls w' = calls w1 @ [ReadSecretVersion path (kv_mount c)]"
proof -
  note fr = ensure_valid_token_frame [OF assms(1)]
  have "\<not> kv_is_fresh w1 c1 path"
    using fr assms(2) by (simp add: kv_is_fresh_def caches_def)
  moreover have "read_secret_version w1 (calls w1) path (kv_mount c1) = Raises ex"
    using fr assms(3) by (simp add: same_endpoint_def kv_mount_def)
  ultimately obtain w' where "get_kv_secret_try w1 c1 path = (Raises ex, c1, w')"
    and "calls w' = calls w1 @ [ReadSecretVersion path (kv_mount c1)]"
    using get_kv_secret_try_raises by blast
  then show ?thesis
    using get_kv_secret_handlers(1) [OF assms(1)] fr by (auto simp: kv_mount_def)
qed

lemma get_kv_secret_returns:
  assumes "ensure_valid_token w c = (True, c1, w1)"
    and "\<not> kv_is_fresh w1 c path"
    and "read_secret_version w (calls w1) path (kv_mount c) = Returns resp"
  shows "\<exists>w' ts. get_kv_secret w c path =
        (data_data resp,
         c1\<lparr>kv_cache := (kv_cache c)(path \<mapsto> \<lparr>data = data_data resp, timestamp = ts, metadata = data_metadata resp\<rparr>)\<rparr>, w') \<and>
      calls w' = calls w1 @ [ReadSecretVersion path (kv_mount c)]"
proof -
  note fr = ensure_valid_token_frame [OF assms(1)]
  have same: "kv_cache c1 = kv_cache c" using fr by (simp add: caches_def)
  have "\<not> kv_is_fresh w1 c1 path"
    using same assms(2) by (simp add: kv_is_fresh_def)
  moreover have "read_secret_version w1 (calls w1) path (kv_mount c1) = Returns resp"
    using fr assms(3) by (simp add: same_endpoint_def kv_mount_def)
  ultimately obtain w' ts where "get_kv_secret_try w1 c1 path =
        (Returns (data_data resp),
         c1\<lparr>kv_cache := (kv_cache c1)(path \<mapsto> \<lparr>data = data_data resp, timestamp = ts, metadata = data_metadata resp\<rparr>)\<rparr>, w')"
    and "calls w' = calls w1 @ [ReadSecretVersion path (kv_mount c1)]"
    using get_kv_secret_try_returns by blast
  then show ?thesis
    using get_kv_secret_handlers(2) [OF assms(1)] fr same by (auto simp: kv_mount_def)
qed

lemma get_kv_secret_stale_calls:
  assumes "ensure_valid_token w c = (True, c1, w1)"
    and "\<not> kv_is_fresh w1 c path"
  shows "calls (snd (snd (get_kv_secret w c path))) = calls w1 @ [ReadSecretVersion path (kv_mount c)]"
proof (cases "read_secret_version w (calls w1) path (kv_mount c)")
  case (Raises ex)
  then show ?thesis using get_kv_secret_raises [OF assms] by fastforce
next
  case (Returns resp)
  then show ?thesis using get_kv_secret_returns [OF assms] by fastforce
qed

subsection \<open>\<^verbatim>\<open>get_database_dynamic_secret\<close>\<close>

lemma get_database_dynamic_secret_try_fresh:
  assumes "db_dynamic_cache c role = Some e" and "10 < real_of_int (ttl e) - (clock w (ticks w) - timestamp e)"
  shows "get_database_dynamic_secret_try w c role = (Returns (PDict [(''data'', data e), (''ttl'', PInt (py_int (real_of_int (ttl e) - (clock w (ticks w) - timestamp e))))]), c, w\<lparr>ticks := Suc (ticks w)\<rparr>)"
  using assms by (simp add: get_database_dynamic_secret_try_def time_time_def Let_def)

lemma get_database_dynamic_secret_try_raises:
  assumes "\<not> db_dynamic_is_fresh w c role"
    and "generate_credentials w (calls w) role (database_mount c) = Raises ex"
  shows "\<exists>w'. get_database_dynamic_secret_try w c role = (Raises ex, c, w') \<and>
      calls w' = calls w @ [GenerateCredentials role (database_mount c)]"
  using assms
  by (auto simp: get_database_dynamic_secret_try_def db_dynamic_is_fresh_def database_mount_def time_time_def Let_def
      split: option.splits)

lemma get_database_dynamic_secret_try_returns:
  assumes "\<not> db_dynamic_is_fresh w c role"
    and "generate_credentials w (calls w) role (database_mount c) = Returns resp"
  shows "\<exists>w' ts. get_database_dynamic_secret_try w c role =
        (Returns (PDict [(''data'', credentials_data resp), (''ttl'', PInt (credentials_lease_duration resp))]),
         c\<lparr>db_dynamic_cache := (db_dynamic_cache c)(role \<mapsto> \<lparr>data = credentials_data resp, timestamp = ts, ttl = credentials_lease_duration resp\<rparr>)\<rparr>, w') \<and>
      calls w' = calls w @ [GenerateCredentials role (database_mount c)]"
  using assms
  by (auto simp: get_database_dynamic_secret_try_def db_dynamic_is_fresh_def database_mount_def time_time_def Let_def
      split: option.splits)

lemma get_database_dynamic_secret_handlers:
  assumes "ensure_valid_token w c = (True, c1, w1)"
  shows "get_database_dynamic_secret_try w1 c1 role = (Raises ex, c2, w2) \<Longrightarrow>
           get_database_dynamic_secret w c role = (PNone, c2, w2)"
    and "get_database_dynamic_secret_try w1 c1 role = (Returns r, c2, w2) \<Longrightarrow>
           get_database_dynamic_secret w c role = (r, c2, w2)"
  using assms by (auto simp: get_database_dynamic_secret_def split: exn.splits)

lemma get_database_dynamic_secret_token_failed:
  assumes "\<not> fst (ensure_valid_token w c)"
  shows "fst (get_database_dynamic_secret w c role) = PNone \<and>
         caches (fst (snd (get_database_dynamic_secret w c role))) = caches c \<and>
         fetches (snd (snd (get_database_dynamic_secret w c role))) = fetches w"
proof -
  obtain ok c1 w1 where e: "ensure_valid_token w c = (ok, c1, w1)"
    by (cases "ensure_valid_token w c") auto
  with assms have "get_database_dynamic_secret w c role = (PNone, c1, w1)"
    by (simp add: get_database_dynamic_secret_def)
  then show ?thesis
    using ensure_valid_token_frame [OF e] by simp
qed

lemma get_database_dynamic_secret_fresh:
  assumes "ensure_valid_token w c = (True, c1, w1)"
    and "db_dynamic_cache c role = Some e" and "10 < real_of_int (ttl e) - (clock w1 (ticks w1) - timestamp e)"
  shows "get_database_dynamic_secret w c role = (PDict [(''data'', data e), (''ttl'', PInt (py_int (real_of_int (ttl e) - (clock w1 (ticks w1) - timestamp e))))], c1, w1\<lparr>ticks := Suc (ticks w1)\<rparr>)"
proof -
  have "db_dynamic_cache c1 role = Some e"
    using ensure_valid_token_frame [OF assms(1)] assms(2) by (simp add: caches_def)
  then show ?thesis
    using get_database_dynamic_secret_handlers(2) [OF assms(1)] get_database_dynamic_secret_try_fresh assms(3) by blast
qed

lemma get_database_dynamic_secret_raises:
  assumes "ensure_valid_token w c = (True, c1, w1)"
    and "\<not> db_dynamic_is_fresh w1 c role"
    and "generate_credentials w (calls w1) role (database_mount c) = Raises ex"
  shows "\<exists>w'. get_database_dynamic_secret w c role = (PNone, c1, w') \<and>
      calls w' = calls w1 @ [GenerateCredentials role (database_mount c)]"
proof -
  note fr = ensure_valid_token_frame [OF assms(1)]
  have "\<not> db_dynamic_is_fresh w1 c1 role"
    using fr assms(2) by (simp add: db_dynamic_is_fresh_def caches_def)
  moreover have "generate_credentials w1 (calls w1) role (database_mount c1) = Raises ex"
    using fr assms(3) by (simp add: same_endpoint_def database_mount_def)
  ultimately obtain w' where "get_database_dynamic_secret_try w1 c1 role = (Raises ex, c1, w')"
    and "calls w' = calls w1 @ [GenerateCredentials role (database_mount c1)]"
    using get_database_dynamic_secret_try_raises by blast
  then show ?thesis
    using get_database_dynamic_secret_handlers(1) [OF assms(1)] fr by (auto simp: database_mount_def)
qed

lemma get_database_dynamic_secret_returns:
  assumes "ensure_valid_token w c = (True, c1, w1)"
    and "\<not> db_dynamic_is_fresh w1 c role"
    and "generate_credentials w (calls w1) role (database_mount c) = Returns resp"
  shows "\<exists>w' ts. get_database_dynamic_secret w c role =
        (PDict [(''data'', credentials_data resp), (''ttl'', PInt (credentials_lease_duration resp))],
         c1\<lparr>db_dynamic_cache := (db_dynamic_cache c)(role \<mapsto> \<lparr>data = credentials_data resp, timestamp = ts, ttl = credentials_lease_duration resp\<rparr>)\<rparr>, w') \<and>
      calls w' = calls w1 @ [GenerateCredentials role (database_mount c)]"
proof -
  note fr = ensure_valid_token_frame [OF assms(1)]
  have same: "db_dynamic_cache c1 = db_dynamic_cache c" using fr by (simp add: caches_def)
  have "\<not> db_dynamic_is_fresh w1 c1 role"
    using same assms(2) by (simp add: db_dynamic_is_fresh_def)
  moreover have "generate_credentials w1 (calls w1) role (database_mount c1) = Returns resp"
    using fr assms(3) by (simp add: same_endpoint_def database_mount_def)
  ultimately obtain w' ts where "get_database_dynamic_secret_try w1 c1 role =
        (Returns (PDict [(''data'', credentials_data resp), (''ttl'', PInt (credentials_lease_duration resp))]),
         c1\<lparr>db_dynamic_cache := (db_dynamic_cache c1)(role \<mapsto> \<lparr>data = credentials_data resp, timestamp = ts, ttl = credentials_lease_duration resp\<rparr>)\<rparr>, w')"
    and "calls w' = calls w1 @ [GenerateCredentials role (database_mount c1)]"
    using get_database_dynamic_secret_try_returns by blast
  then show ?thesis
    using get_database_dynamic_secret_handlers(2) [OF assms(1)] fr same by (auto simp: database_mount_def)
qed

lemma get_database_dynamic_secret_stale_calls:
  assumes "ensure_valid_token w c = (True, c1, w1)"
    and "\<not> db_dynamic_is_fresh w1 c role"
  shows "calls (snd (snd (get_database_dynamic_secret w c role))) = calls w1 @ [GenerateCredentials role (database_mount c)]"
proof (cases "generate_credentials w (calls w1) role (database_mount c)")
  case (Raises ex)
  then show ?thesis using get_database_dynamic_secret_raises [OF assms] by fastforce
next
  case (Returns resp)
  then show ?thesis using get_database_dynamic_secret_returns [OF assms] by fastforce
qed

subsection \<open>\<^verbatim>\<open>get_database_static_secret\<close>\<close>

lemma get_database_static_secret_try_fresh:
  assumes "db_static_cache c role = Some e" and "clock w (ticks w) - timestamp e < 300"
  shows "get_database_static_secret_try w c role = (Returns (data e), c, w\<lparr>ticks := Suc (ticks w)\<rparr>)"
  using assms by (simp add: get_database_static_secret_try_def time_time_def Let_def)

lemma get_database_static_secret_try_raises:
  assumes "\<not> db_static_is_fresh w c role"
    and "get_static_credentials w (calls w) role (database_mount c) = Raises ex"
  shows "\<exists>w'. get_database_static_secret_try w c role = (Raises ex, c, w') \<and>
      calls w' = calls w @ [GetStaticCredentials role (database_mount c)]"
  using assms
  by (auto simp: get_database_static_secret_try_def db_static_is_fresh_def database_mount_def time_time_def Let_def
      split: option.splits)

lemma get_database_static_secret_try_returns:
  assumes "\<not> db_static_is_fresh w c role"
    and "get_static_credentials w (calls w) role (database_mount c) = Returns resp"
  shows "\<exists>w' ts. get_database_static_secret_try w c role =
        (Returns (PDict [(''data'', static_data resp), (''ttl'', PInt (case static_ttl resp of None \<Rightarrow> 3600 | Some t \<Rightarrow> t))]),
         c\<lparr>db_static_cache := (db_static_cache c)(role \<mapsto> \<lparr>data = static_data resp, timestamp = ts, ttl = (case static_ttl resp of None \<Rightarrow> 3600 | Some t \<Rightarrow> t)\<rparr>)\<rparr>, w') \<and>
      calls w' = calls w @ [GetStaticCredentials role (database_mount c)]"
  using assms
  by (auto simp: get_database_static_secret_try_def db_static_is_fresh_def database_mount_def time_time_def Let_def
      split: option.splits)

lemma get_database_static_secret_handlers:
  assumes "ensure_valid_token w c = (True, c1, w1)"
  shows "get_database_static_secret_try w1 c1 role = (Raises ex, c2, w2) \<Longrightarrow>
           get_database_static_secret w c role = (PNone, c2, w2)"
    and "get_database_static_secret_try w1 c1 role = (Returns r, c2, w2) \<Longrightarrow>
           get_database_static_secret w c role = (r, c2, w2)"
  using assms by (auto simp: get_database_static_secret_def split: exn.splits)

lemma get_database_static_secret_token_failed:
  assumes "\<not> fst (ensure_valid_token w c)"
  shows "fst (get_database_static_secret w c role) = PNone \<and>
         caches (fst (snd (get_database_static_secret w c role))) = caches c \<and>
         fetches (snd (snd (get_database_static_secret w c role))) = fetches w"
proof -
  obtain ok c1 w1 where e: "ensure_valid_token w c = (ok, c1, w1)"
    by (cases "ensure_valid_token w c") auto
  with assms have "get_database_static_secret w c role = (PNone, c1, w1)"
    by (simp add: get_database_static_secret_def)
  then show ?thesis
    using ensure_valid_token_frame [OF e] by simp
qed

lemma get_database_static_secret_fresh:
  assumes "ensure_valid_token w c = (True, c1, w1)"
    and "db_static_cache c role = Some e" and "clock w1 (ticks w1) - timestamp e < 300"
  shows "get_database_static_secret w c role = (data e, c1, w1\<lparr>ticks := Suc (ticks w1)\<rparr>)"
proof -
  have "db_static_cache c1 role = Some e"
    using ensure_valid_token_frame [OF assms(1)] assms(2) by (simp add: caches_def)
  then show ?thesis
    using get_database_static_secret_handlers(2) [OF assms(1)] get_database_static_secret_try_fresh assms(3) by blast
qed

lemma get_database_static_secret_raises:
  assumes "ensure_valid_token w c = (True, c1, w1)"
    and "\<not> db_static_is_fresh w1 c role"
    and "get_static_credentials w (calls w1) role (database_mount c) = Raises ex"
  shows "\<exists>w'. get_database_static_secret w c role = (PNone, c1, w') \<and>
      calls w' = calls w1 @ [GetStaticCredentials role (database_mount c)]"
proof -
  note fr = ensure_valid_token_frame [OF assms(1)]
  have "\<not> db_static_is_fresh w1 c1 role"
    using fr assms(2) by (simp add: db_static_is_fresh_def caches_def)
  moreover have "get_static_credentials w1 (calls w1) role (database_mount c1) = Raises ex"
    using fr assms(3) by (simp add: same_endpoint_def database_mount_def)
  ultimately obtain w' where "get_database_static_secret_try w1 c1 role = (Raises ex, c1, w')"
    and "calls w' = calls w1 @ [GetStaticCredentials role (database_mount c1)]"
    using get_database_static_secret_try_raises by blast
  then show ?thesis
    using get_database_static_secret_handlers(1) [OF assms(1)] fr by (auto simp: database_mount_def)
qed

lemma get_database_static_secret_returns:
  assumes "ensure_valid_token w c = (True, c1, w1)"
    and "\<not> db_static_is_fresh w1 c role"
    and "get_static_credentials w (calls w1) role (database_mount c) = Returns resp"
  shows "\<exists>w' ts. get_database_static_secret w c role =
        (PDict [(''data'', static_data resp), (''ttl'', PInt (case static_ttl resp of None \<Rightarrow> 3600 | Some t \<Rightarrow> t))],
         c1\<lparr>db_static_cache := (db_static_cache c)(role \<mapsto> \<lparr>data = static_data resp, timestamp = ts, ttl = (case static_ttl resp of None \<Rightarrow> 3600 | Some t \<Rightarrow> t)\<rparr>)\<rparr>, w') \<and>
      calls w' = calls w1 @ [GetStaticCredentials role (database_mount c)]"
proof -
  note fr = ensure_valid_token_frame [OF assms(1)]
  have same: "db_static_cache c1 = db_static_cache c" using fr by (simp add: caches_def)
  have "\<not> db_static_is_fresh w1 c1 role"
    using same assms(2) by (simp add: db_static_is_fresh_def)
  moreover have "get_static_credentials w1 (calls w1) role (database_mount c1) = Returns resp"
    using fr assms(3) by (simp add: same_endpoint_def database_mount_def)
  ultimately obtain w' ts where "get_database_static_secret_try w1 c1 role =
        (Returns (PDict [(''data'', static_data resp), (''ttl'', PInt (case static_ttl resp of None \<Rightarrow> 3600 | Some t \<Rightarrow> t))]),
         c1\<lparr>db_static_cache := (db_static_cache c1)(role \<mapsto> \<lparr>data = static_data resp, timestamp = ts, ttl = (case static_ttl resp of None \<Rightarrow> 3600 | Some t \<Rightarrow> t)\<rparr>)\<rparr>, w')"
    and "calls w' = calls w1 @ [GetStaticCredentials role (database_mount c1)]"
    using get_database_static_secret_try_returns by blast
  then show ?thesis
    using get_database_static_secret_handlers(2) [OF assms(1)] fr same by (auto simp: database_mount_def)
qed

lemma get_database_static_secret_stale_calls:
  assumes "ensure_valid_token w c = (True, c1, w1)"
    and "\<not> db_static_is_fresh w1 c role"
  shows "calls (snd (snd (get_database_static_secret w c role))) = calls w1 @ [GetStaticCredentials role (database_mount c)]"
proof (cases "get_static_credentials w (calls w1) role (database_mount c)")
  case (Raises ex)
  then show ?thesis using get_database_static_secret_raises [OF assms] by fastforce
next
  case (Returns resp)
  then show ?thesis using get_database_static_secret_returns [OF assms] by fastforce
qed

section \<open>Freshness of cache entries\<close>

text \<open>
  A stale or missing entry makes the operation fetch once; an entry is served from the
  cache exactly when it passes the freshness test.
\<close>

lemma get_kv_secret_stale_fetches:
  assumes "ensure_valid_token w c = (True, c1, w1)"
    and "\<not> kv_is_fresh w1 c path"
  shows "fetches (snd (snd (get_kv_secret w c path))) = fetches w @ [ReadSecretVersion path (kv_mount c)]"
  using get_kv_secret_stale_calls [OF assms] ensure_valid_token_frame [OF assms(1)]
    fetches_append [of "snd (snd (get_kv_secret w c path))" w1 "ReadSecretVersion path (kv_mount c)"]
  by simp


lemma get_database_dynamic_secret_stale_fetches:
  assumes "ensure_valid_token w c = (True, c1, w1)"
    and "\<not> db_dynamic_is_fresh w1 c role"
  shows "fetches (snd (snd (get_database_dynamic_secret w c role))) = fetches w @ [GenerateCredentials role (database_mount c)]"
  using get_database_dynamic_secret_stale_calls [OF assms] ensure_valid_token_frame [OF assms(1)]
    fetches_append [of "snd (snd (get_database_dynamic_secret w c role))" w1 "GenerateCredentials role (database_mount c)"]
  by simp


lemma get_database_static_secret_stale_fetches:
  assumes "ensure_valid_token w c = (True, c1, w1)"
    and "\<not> db_static_is_fresh w1 c role"
  shows "fetches (snd (snd (get_database_static_secret w c role))) = fetches w @ [GetStaticCredentials role (database_mount c)]"
  using get_database_static_secret_stale_calls [OF assms] ensure_valid_token_frame [OF assms(1)]
    fetches_append [of "snd (snd (get_database_static_secret w c role))" w1 "GetStaticCredentials role (database_mount c)"]
  by simp


text \<open>The token of the sample client with caches is valid up to time 2880.\<close>

lemma cached_client_token_valid:
  assumes "clk 0 < 2880" and "clk (Suc 0) < 2880"
  shows "ensure_valid_token (endpoint_up clk) cached_client =
           (True, cached_client, (endpoint_up clk)\<lparr>ticks := Suc (Suc 0)\<rparr>)"
    and "ensure_valid_token (endpoint_down clk) cached_client =
           (True, cached_client, (endpoint_down clk)\<lparr>ticks := Suc (Suc 0)\<rparr>)"
  using assms by (simp_all add: ensure_valid_token_valid sample_defs)





section \<open>Remote fetches and cache updates\<close>

text \<open>
  What one call of each operation does to the fetches made and to the caches, once the
  token check has succeeded: on a fresh entry, on a fetch that returns, and on a fetch
  that raises.
\<close>

lemma get_kv_secret_effects:
  assumes "ensure_valid_token w c = (True, c1, w1)"
    and "get_kv_secret w c path = (r, c', w')"
  shows "(kv_is_fresh w1 c path \<longrightarrow> fetches w' = fetches w \<and> caches c' = caches c) \<and>
    (\<not> kv_is_fresh w1 c path \<longrightarrow>
       fetches w' = fetches w @ [ReadSecretVersion path (kv_mount c)] \<and>
       (\<forall>resp. read_secret_version w (calls w1) path (kv_mount c) = Returns resp \<longrightarrow>
          r = data_data resp \<and>
          (\<exists>ts. caches c' = ((kv_cache c)(path \<mapsto> \<lparr>data = data_data resp, timestamp = ts, metadata = data_metadata resp\<rparr>), db_dynamic_cache c, db_static_cache c))) \<and>
       (\<forall>ex. read_secret_version w (calls w1) path (kv_mount c) = Raises ex \<longrightarrow>
          r = PNone \<and> caches c' = caches c))"
proof -
  note fr = ensure_valid_token_frame [OF assms(1)]
  have fresh: "fetches w' = fetches w \<and> caches c' = caches c" if "kv_is_fresh w1 c path"
  proof -
    from that obtain e where "kv_cache c path = Some e" and "clock w1 (ticks w1) - timestamp e < 300"
      by (auto simp: kv_is_fresh_def split: option.splits)
    then have "get_kv_secret w c path = (data e, c1, w1\<lparr>ticks := Suc (ticks w1)\<rparr>)"
      using get_kv_secret_fresh [OF assms(1)] by simp
    with assms(2) have "c' = c1" and "w' = w1\<lparr>ticks := Suc (ticks w1)\<rparr>" by simp_all
    then show ?thesis using fr by (simp add: fetches_def)
  qed
  have stale: "fetches w' = fetches w @ [ReadSecretVersion path (kv_mount c)]" if "\<not> kv_is_fresh w1 c path"
    using get_kv_secret_stale_fetches [OF assms(1) that] assms(2) by simp
  have ret: "r = data_data resp \<and>
      (\<exists>ts. caches c' = ((kv_cache c)(path \<mapsto> \<lparr>data = data_data resp, timestamp = ts, metadata = data_metadata resp\<rparr>), db_dynamic_cache c, db_static_cache c))"
    if h1: "\<not> kv_is_fresh w1 c path" and h2: "read_secret_version w (calls w1) path (kv_mount c) = Returns resp" for resp
  proof -
    obtain w'' ts where "get_kv_secret w c path =
        (data_data resp, c1\<lparr>kv_cache := (kv_cache c)(path \<mapsto> \<lparr>data = data_data resp, timestamp = ts, metadata = data_metadata resp\<rparr>)\<rparr>, w'')"
      using get_kv_secret_returns [OF assms(1) h1 h2] by blast
    with assms(2) have "r = data_data resp"
      and "c' = c1\<lparr>kv_cache := (kv_cache c)(path \<mapsto> \<lparr>data = data_data resp, timestamp = ts, metadata = data_metadata resp\<rparr>)\<rparr>"
      by auto
    then show ?thesis using fr by (auto simp: caches_def)
  qed
  have rai: "r = PNone \<and> caches c' = caches c"
    if h1: "\<not> kv_is_fresh w1 c path" and h2: "read_secret_version w (calls w1) path (kv_mount c) = Raises ex" for ex
  proof -
    obtain w'' where "get_kv_secret w c path = (PNone, c1, w'')"
      using get_kv_secret_raises [OF assms(1) h1 h2] by blast
    with assms(2) have "r = PNone" and "c' = c1" by simp_all
    then show ?thesis using fr by simp
  qed
  show ?thesis using fresh stale ret rai by blast
qed

lemma get_database_dynamic_secret_effects:
  assumes "ensure_valid_token w c = (True, c1, w1)"
    and "get_database_dynamic_secret w c role = (r, c', w')"
  shows "(db_dynamic_is_fresh w1 c role \<longrightarrow> fetches w' = fetches w \<and> caches c' = caches c) \<and>
    (\<not> db_dynamic_is_fresh w1 c role \<longrightarrow>
       fetches w' = fetches w @ [GenerateCredentials role (database_mount c)] \<and>
       (\<forall>resp. generate_credentials w (calls w1) role (database_mount c) = Returns resp \<longrightarrow>
          r = PDict [(''data'', credentials_data resp), (''ttl'', PInt (credentials_lease_duration resp))] \<and>
          (\<exists>ts. caches c' = (kv_cache c, (db_dynamic_cache c)(role \<mapsto> \<lparr>data = credentials_data resp, timestamp = ts, ttl = credentials_lease_duration resp\<rparr>), db_static_cache c))) \<and>
       (\<forall>ex. generate_credentials w (calls w1) role (database_mount c) = Raises ex \<longrightarrow>
          r = PNone \<and> caches c' = caches c))"
proof -
  note fr = ensure_valid_token_frame [OF assms(1)]
  have fresh: "fetches w' = fetches w \<and> caches c' = caches c" if "db_dynamic_is_fresh w1 c role"
  proof -
    from that obtain e where "db_dynamic_cache c role = Some e" and "10 < real_of_int (ttl e) - (clock w1 (ticks w1) - timestamp e)"
      by (auto simp: db_dynamic_is_fresh_def split: option.splits)
    then have "get_database_dynamic_secret w c role = (PDict [(''data'', data e), (''ttl'', PInt (py_int (real_of_int (ttl e) - (clock w1 (ticks w1) - timestamp e))))], c1, w1\<lparr>ticks := Suc (ticks w1)\<rparr>)"
      using get_database_dynamic_secret_fresh [OF assms(1)] by simp
    with assms(2) have "c' = c1" and "w' = w1\<lparr>ticks := Suc (ticks w1)\<rparr>" by simp_all
    then show ?thesis using fr by (simp add: fetches_def)
  qed
  have stale: "fetches w' = fetches w @ [GenerateCredentials role (database_mount c)]" if "\<not> db_dynamic_is_fresh w1 c role"
    using get_database_dynamic_secret_stale_fetches [OF assms(1) that] assms(2) by simp
  have ret: "r = PDict [(''data'', credentials_data resp), (''ttl'', PInt (credentials_lease_duration resp))] \<and>
      (\<exists>ts. caches c' = (kv_cache c, (db_dynamic_cache c)(role \<mapsto> \<lparr>data = credentials_data resp, timestamp = ts, ttl = credentials_lease_duration resp\<rparr>), db_static_cache c))"
    if h1: "\<not> db_dynamic_is_fresh w1 c role" and h2: "generate_credentials w (calls w1) role (database_mount c) = Returns resp" for resp
  proof -
    obtain w'' ts where "get_database_dynamic_secret w c role =
        (PDict [(''data'', credentials_data resp), (''ttl'', PInt (credentials_lease_duration resp))], c1\<lparr>db_dynamic_cache := (db_dynamic_cache c)(role \<mapsto> \<lparr>data = credentials_data resp, timestamp = ts, ttl = credentials_lease_duration resp\<rparr>)\<rparr>, w'')"
      using get_database_dynamic_secret_returns [OF assms(1) h1 h2] by blast
    with assms(2) have "r = PDict [(''data'', credentials_data resp), (''ttl'', PInt (credentials_lease_duration resp))]"
      and "c' = c1\<lparr>db_dynamic_cache := (db_dynamic_cache c)(role \<mapsto> \<lparr>data = credentials_data resp, timestamp = ts, ttl = credentials_lease_duration resp\<rparr>)\<rparr>"
      by auto
    then show ?thesis using fr by (auto simp: caches_def)
  qed
  have rai: "r = PNone \<and> caches c' = caches c"
    if h1: "\<not> db_dynamic_is_fresh w1 c role" and h2: "generate_credentials w (calls w1) role (database_mount c) = Raises ex" for ex
  proof -
    obtain w'' where "get_database_dynamic_secret w c role = (PNone, c1, w'')"
      using get_database_dynamic_secret_raises [OF assms(1) h1 h2] by blast
    with assms(2) have "r = PNone" and "c' = c1" by simp_all
    then show ?thesis using fr by simp
  qed
  show ?thesis using fresh stale ret rai by blast
qed

lemma get_database_static_secret_effects:
  assumes "ensure_valid_token w c = (True, c1, w1)"
    and "get_database_static_secret w c role = (r, c', w')"
  shows "(db_static_is_fresh w1 c role \<longrightarrow> fetches w' = fetches w \<and> caches c' = caches c) \<and>
    (\<not> db_static_is_fresh w1 c role \<longrightarrow>
       fetches w' = fetches w @ [GetStaticCredentials role (database_mount c)] \<and>
       (\<forall>resp. get_static_credentials w (calls w1) role (database_mount c) = Returns resp \<longrightarrow>
          r = PDict [(''data'', static_data resp), (''ttl'', PInt (case static_ttl resp of None \<Rightarrow> 3600 | Some t \<Rightarrow> t))] \<and>
          (\<exists>ts. caches c' = (kv_cache c, db_dynamic_cache c, (db_static_cache c)(role \<mapsto> \<lparr>data = static_data resp, timestamp = ts, ttl = (case static_ttl resp of None \<Rightarrow> 3600 | Some t \<Rightarrow> t)\<rparr>)))) \<and>
       (\<forall>ex. get_static_credentials w (calls w1) role (database_mount c) = Raises ex \<longrightarrow>
          r = PNone \<and> caches c' = caches c))"
proof -
  note fr = ensure_valid_token_frame [OF assms(1)]
  have fresh: "fetches w' = fetches w \<and> caches c' = caches c" if "db_static_is_fresh w1 c role"
  proof -
    from that obtain e where "db_static_cache c role = Some e" and "clock w1 (ticks w1) - timestamp e < 300"
      by (auto simp: db_static_is_fresh_def split: option.splits)
    then have "get_database_static_secret w c role = (data e, c1, w1\<lparr>ticks := Suc (ticks w1)\<rparr>)"
      using get_database_static_secret_fresh [OF assms(1)] by simp
    with assms(2) have "c' = c1" and "w' = w1\<lparr>ticks := Suc (ticks w1)\<rparr>" by simp_all
    then show ?thesis using fr by (simp add: fetches_def)
  qed
  have stale: "fetches w' = fetches w @ [GetStaticCredentials role (database_mount c)]" if "\<not> db_static_is_fresh w1 c role"
    using get_database_static_secret_stale_fetches [OF assms(1) that] assms(2) by simp
  have ret: "r = PDict [(''data'', static_data resp), (''ttl'', PInt (case static_ttl resp of None \<Rightarrow> 3600 | Some t \<Rightarrow> t))] \<and>
      (\<exists>ts. caches c' = (kv_cache c, db_dynamic_cache c, (db_static_cache c)(role \<mapsto> \<lparr>data = static_data resp, timestamp = ts, ttl = (case static_ttl resp of None \<Rightarrow> 3600 | Some t \<Rightarrow> t)\<rparr>)))"
    if h1: "\<not> db_static_is_fresh w1 c role" and h2: "get_static_credentials w (calls w1) role (database_mount c) = Returns resp" for resp
  proof -
    obtain w'' ts where "get_database_static_secret w c role =
        (PDict [(''data'', static_data resp), (''ttl'', PInt (case static_ttl resp of None \<Rightarrow> 3600 | Some t \<Rightarrow> t))], c1\<lparr>db_static_cache := (db_static_cache c)(role \<mapsto> \<lparr>data = static_data resp, timestamp = ts, ttl = (case static_ttl resp of None \<Rightarrow> 3600 | Some t \<Rightarrow> t)\<rparr>)\<rparr>, w'')"
      using get_database_static_secret_returns [OF assms(1) h1 h2] by blast
    with assms(2) have "r = PDict [(''data'', static_data resp), (''ttl'', PInt (case static_ttl resp of None \<Rightarrow> 3600 | Some t \<Rightarrow> t))]"
      and "c' = c1\<lparr>db_static_cache := (db_static_cache c)(role \<mapsto> \<lparr>data = static_data resp, timestamp = ts, ttl = (case static_ttl resp of None \<Rightarrow> 3600 | Some t \<Rightarrow> t)\<rparr>)\<rparr>"
      by auto
    then show ?thesis using fr by (auto simp: caches_def)
  qed
  have rai: "r = PNone \<and> caches c' = caches c"
    if h1: "\<not> db_static_is_fresh w1 c role" and h2: "get_static_credentials w (calls w1) role (database_mount c) = Raises ex" for ex
  proof -
    obtain w'' where "get_database_static_secret w c role = (PNone, c1, w'')"
      using get_database_static_secret_raises [OF assms(1) h1 h2] by blast
    with assms(2) have "r = PNone" and "c' = c1" by simp_all
    then show ?thesis using fr by simp
  qed
  show ?thesis using fresh stale ret rai by blast
qed




text \<open>
  The token check fails only when the endpoint refuses the login or the renewal.
\<close>

lemma ensure_valid_token_fails_on_refusal:
  assumes "\<not> fst (ensure_valid_token w c)"
  shows "(\<exists>e. approle_login w (calls w) (config_role_id (config c))
              (config_secret_id (config c)) = Raises e) \<or>
         (\<exists>e. renew_self w (calls w) = Raises e)"
proof -
  let ?T = "real_of_int (token_ttl c) * (8 / 10)"
  let ?login = "approle_login w (calls w) (config_role_id (config c))
      (config_secret_id (config c))"
  have login_ok: "fst (login v c)"
    if "calls v = calls w" and "approle_login v = approle_login w" and "?login = Returns r"
    for v r
    using that login_returns [of v c r] by simp
  have renew_ok: "fst (renew_token v c)"
    if "calls v = calls w" and "renew_self v = renew_self w" and "renew_self w (calls w) = Returns r"
    for v r
    using that renew_token_returns [of v r c] by simp
  consider (a) "no_token (token c) \<or> token_ttl c \<le> 0"
    | (b) "\<not> no_token (token c)" "0 < token_ttl c"
        "?T \<le> clock w (ticks w) - token_issued_time c"
    | (c) "\<not> no_token (token c)" "0 < token_ttl c"
        "clock w (ticks w) - token_issued_time c < ?T"
        "clock w (Suc (ticks w)) - token_issued_time c < ?T"
    | (d) "\<not> no_token (token c)" "0 < token_ttl c"
        "clock w (ticks w) - token_issued_time c < ?T"
        "?T \<le> clock w (Suc (ticks w)) - token_issued_time c"
    by fastforce
  then show ?thesis
  proof cases
    case a
    then have "\<not> fst (login w c)" using assms by (simp add: ensure_valid_token_no_token)
    then show ?thesis using login_ok [of w] by (cases ?login) auto
  next
    case b
    then have "\<not> fst (login (w\<lparr>ticks := Suc (ticks w)\<rparr>) c)"
      using assms by (simp add: ensure_valid_token_expired)
    then show ?thesis using login_ok [of "w\<lparr>ticks := Suc (ticks w)\<rparr>"] by (cases ?login) auto
  next
    case c
    then show ?thesis using assms by (simp add: ensure_valid_token_valid)
  next
    case d
    then have "\<not> fst (renew_token (w\<lparr>ticks := Suc (Suc (ticks w))\<rparr>) c)"
      using assms by (simp add: ensure_valid_token_race)
    then show ?thesis
      using renew_ok [of "w\<lparr>ticks := Suc (Suc (ticks w))\<rparr>"]
      by (cases "renew_self w (calls w)") auto
  qed
qed

text \<open>
  C6. For every get operation, if the remote call fails, the operation returns \<^verbatim>\<open>None\<close>
  and leaves the three caches unchanged: both when the token check fails (the login or
  renewal was refused) and when the fetch raises, whichever exception it is. The handlers
  turn every exception of the \<^verbatim>\<open>try\<close> body into the result \<^verbatim>\<open>None\<close>, so nothing is raised
  to the caller.
\<close>

theorem remote_failure_is_unavailable:
  assumes "get_kv_secret w c path = (r_kv, c_kv, w_kv)"
    and "get_database_dynamic_secret w c role = (r_dyn, c_dyn, w_dyn)"
    and "get_database_static_secret w c role = (r_st, c_st, w_st)"
  shows
   "(\<not> fst (ensure_valid_token w c) \<longrightarrow>
       r_kv = PNone \<and> caches c_kv = caches c \<and>
       r_dyn = PNone \<and> caches c_dyn = caches c \<and>
       r_st = PNone \<and> caches c_st = caches c) \<and>
    (ensure_valid_token w c = (True, c1, w1) \<longrightarrow>
       (\<not> kv_is_fresh w1 c path \<and>
        read_secret_version w (calls w1) path (kv_mount c) = Raises ex_kv \<longrightarrow>
          r_kv = PNone \<and> caches c_kv = caches c) \<and>
       (\<not> db_dynamic_is_fresh w1 c role \<and>
        generate_credentials w (calls w1) role (database_mount c) = Raises ex_dyn \<longrightarrow>
          r_dyn = PNone \<and> caches c_dyn = caches c) \<and>
       (\<not> db_static_is_fresh w1 c role \<and>
        get_static_credentials w (calls w1) role (database_mount c) = Raises ex_st \<longrightarrow>
          r_st = PNone \<and> caches c_st = caches c))"
proof -
  have failed: "r_kv = PNone \<and> caches c_kv = caches c \<and>
       r_dyn = PNone \<and> caches c_dyn = caches c \<and>
       r_st = PNone \<and> caches c_st = caches c"
    if "\<not> fst (ensure_valid_token w c)"
    using get_kv_secret_token_failed [OF that, of path]
      get_database_dynamic_secret_token_failed [OF that, of role]
      get_database_static_secret_token_failed [OF that, of role] assms
    by simp
  have raised:
    "(\<not> kv_is_fresh w1 c path \<and>
        read_secret_version w (calls w1) path (kv_mount c) = Raises ex_kv \<longrightarrow>
          r_kv = PNone \<and> caches c_kv = caches c) \<and>
     (\<not> db_dynamic_is_fresh w1 c role \<and>
        generate_credentials w (calls w1) role (database_mount c) = Raises ex_dyn \<longrightarrow>
          r_dyn = PNone \<and> caches c_dyn = caches c) \<and>
     (\<not> db_static_is_fresh w1 c role \<and>
        get_static_credentials w (calls w1) role (database_mount c) = Raises ex_st \<longrightarrow>
          r_st = PNone \<and> caches c_st = caches c)"
    if tok: "ensure_valid_token w c = (True, c1, w1)"
    using get_kv_secret_effects [OF tok assms(1)]
      get_database_dynamic_secret_effects [OF tok assms(2)]
      get_database_static_secret_effects [OF tok assms(3)]
    by blast
  show ?thesis using failed raised by blast
qed

text \<open>
  An endpoint that refuses everything: an expired token cannot be replaced (time 81), and
  with a valid token the three stale entries cannot be refreshed (time 300).
\<close>

theorem remote_failure_is_unavailable_witness:
  "fst (get_kv_secret (endpoint_down (\<lambda>n. 81)) held_client ''app/config'') = PNone \<and>
   caches (fst (snd (get_kv_secret (endpoint_down (\<lambda>n. 81)) held_client ''app/config''))) =
     caches held_client \<and>
   fst (get_kv_secret (endpoint_down (\<lambda>n. 300)) cached_client ''app/config'') = PNone \<and>
   caches (fst (snd (get_kv_secret (endpoint_down (\<lambda>n. 300)) cached_client ''app/config''))) =
     caches cached_client \<and>
   fst (get_database_dynamic_secret (endpoint_down (\<lambda>n. 300)) cached_client ''db-role'') = PNone \<and>
   caches (fst (snd (get_database_dynamic_secret (endpoint_down (\<lambda>n. 300)) cached_client
     ''db-role''))) = caches cached_client \<and>
   fst (get_database_static_secret (endpoint_down (\<lambda>n. 300)) cached_client ''db-role'') = PNone \<and>
   caches (fst (snd (get_database_static_secret (endpoint_down (\<lambda>n. 300)) cached_client
     ''db-role''))) = caches cached_client"
proof -
  let ?v = "endpoint_down (\<lambda>n. 81)"
  let ?w = "endpoint_down (\<lambda>n. 300)"
  have nv: "\<not> fst (ensure_valid_token ?v held_client)"
    by (simp add: ensure_valid_token_expired login_raises sample_defs)
  have a: "ensure_valid_token ?w cached_client =
      (True, cached_client, ?w\<lparr>ticks := Suc (Suc 0)\<rparr>)"
    by (simp add: cached_client_token_valid)
  have stale: "\<not> kv_is_fresh (?w\<lparr>ticks := Suc (Suc 0)\<rparr>) cached_client ''app/config''"
    "\<not> db_dynamic_is_fresh (?w\<lparr>ticks := Suc (Suc 0)\<rparr>) cached_client ''db-role''"
    "\<not> db_static_is_fresh (?w\<lparr>ticks := Suc (Suc 0)\<rparr>) cached_client ''db-role''"
    by (simp_all add: kv_is_fresh_def db_dynamic_is_fresh_def db_static_is_fresh_def
        sample_defs)
  have down: "read_secret_version ?w (calls (?w\<lparr>ticks := Suc (Suc 0)\<rparr>)) ''app/config''
        (kv_mount cached_client) = Raises VaultError"
    "generate_credentials ?w (calls (?w\<lparr>ticks := Suc (Suc 0)\<rparr>)) ''db-role''
        (database_mount cached_client) = Raises OtherException"
    "get_static_credentials ?w (calls (?w\<lparr>ticks := Suc (Suc 0)\<rparr>)) ''db-role''
        (database_mount cached_client) = Raises VaultError"
    by (simp_all add: endpoint_down_def)
  have split: "x = (fst x, fst (snd x), snd (snd x))" for x :: "pyval \<times> client \<times> world"
    by simp
  show ?thesis
    using remote_failure_is_unavailable [OF split split split,
        of ?v held_client "''app/config''" "''db-role''"] nv
      remote_failure_is_unavailable [OF split split split,
        of ?w cached_client "''app/config''" "''db-role''" cached_client
          "?w\<lparr>ticks := Suc (Suc 0)\<rparr>" VaultError OtherException VaultError]
      a stale down
    by simp
qed

section \<open>The two result shapes of the static operation\<close>






end
